theory Spec2Isabelle
  imports
    Complex_Main
    "HOL-Library.List_Lexorder"
    "HOL-Library.Char_ord"
    "HOL-Library.Product_Lexorder"
begin

section \<open>The farm monitoring dashboard: tables and pipeline\<close>

text \<open>
  The script \<^verbatim>\<open>streamlit_farm_dashboard4.py\<close> is one top-to-bottom pipeline over
  two tables. A table is modelled as the list of its rows, in row order; a column that
  can hold a null (\<^verbatim>\<open>NaN\<close>, \<^verbatim>\<open>None\<close>, \<^verbatim>\<open>NaT\<close>) has an option type, with
  \<open>None\<close> for the null.

  Strings are ordered as Python orders them (lexicographically by character code, a proper
  prefix first), timestamps chronologically. Heights and coordinates are 64-bit floats in
  the script; here they are rationals, so sums and means are exact, and \<^verbatim>\<open>NaN\<close> is the
  null of the column.
\<close>

subsection \<open>Data\<close>

text \<open>
  A timestamp is (year, month, day, time of day); the lexicographic order of the tuple is
  the chronological order. \<^verbatim>\<open>Timestamp.date()\<close> keeps the first three components.
\<close>

type_synonym timestamp = "nat \<times> nat \<times> nat \<times> nat"
type_synonym date = "nat \<times> nat \<times> nat"

definition date_of :: "timestamp \<Rightarrow> date" where
  "date_of t = (case t of (yr, mo, dy, _) \<Rightarrow> (yr, mo, dy))"

text \<open>
  A row of \<^verbatim>\<open>monitoring_data.csv\<close> after the column conversions of lines 14 to 21, the
  row filter of line 20 apart: \<open>Crop_id\<close> is the trimmed string, \<open>date_observed\<close> the
  result of \<^verbatim>\<open>pd.to_datetime(..., errors='coerce')\<close> (null where the text did not parse),
  \<open>height_cm\<close> the result of \<^verbatim>\<open>pd.to_numeric(..., errors='coerce')\<close>.
\<close>

record observation =
  Crop_id :: string
  date_observed :: "timestamp option"
  height_cm :: "rat option"
  stage :: "string option"
  crop_health :: "string option"
  fid :: "int option"

text \<open>
  A row of \<^verbatim>\<open>planting_centroids.geojson\<close> after lines 26 to 31. The column \<^verbatim>\<open>id\<close> is
  \<open>id_col\<close> here, \<^verbatim>\<open>Row ID\<close> (renamed \<^verbatim>\<open>Plot ID\<close> at line 54) is \<open>plot_id\<close>.
  \<open>centroid\<close> is \<^verbatim>\<open>geometry.centroid\<close> as the pair (x, y), which line 64 computes from
  the row's geometry alone; it is null for a missing or empty geometry, whose coordinates
  read as \<^verbatim>\<open>NaN\<close>.
\<close>

record planting_centroid =
  id_col :: string
  plant_date :: "date option"
  plot_id :: "string option"
  block_id :: "string option"
  crop_class :: "string option"
  crop_varie :: "string option"
  centroid :: "(rat \<times> rat) option"

text \<open>
  The columns of \<^verbatim>\<open>agg_monitoring\<close>, which are also the right-hand columns of the merged
  table; there every one of them can be null. \<open>Crop_id_agg\<close> is the column \<^verbatim>\<open>Crop_id\<close>
  that \<^verbatim>\<open>reset_index()\<close> makes of the group key.
\<close>

record agg_cols =
  Crop_id_agg :: "string option"
  avg_height :: "rat option"
  last_stage :: "string option"
  last_crop_health :: "string option"
  last_observed :: "timestamp option"
  observations_count :: "nat option"

text \<open>A row of \<^verbatim>\<open>merged_gdf\<close>: the centroid's columns, then the aggregate's.\<close>

record merged =
  left_cols :: planting_centroid
  right_cols :: agg_cols

subsection \<open>The pandas reductions\<close>

text \<open>The non-null cells of a column, in row order.\<close>

definition notna :: "'a option list \<Rightarrow> 'a list" where
  "notna xs = [v. Some v \<leftarrow> xs]"

text \<open>\<^verbatim>\<open>'mean'\<close>: the mean of the non-null cells, null when there is none.\<close>

definition mean_pd :: "rat option list \<Rightarrow> rat option" where
  "mean_pd xs =
     (let vs = notna xs
      in if vs = [] then None else Some (sum_list vs / of_nat (length vs)))"

text \<open>\<^verbatim>\<open>'last'\<close>: the last non-null cell in row order, null when there is none.\<close>

definition last_pd :: "'a option list \<Rightarrow> 'a option" where
  "last_pd xs = (let vs = notna xs in if vs = [] then None else Some (last vs))"

fun max_list :: "'a::linorder list \<Rightarrow> 'a option" where
  "max_list [] = None"
| "max_list (v # vs) = (case max_list vs of None \<Rightarrow> Some v | Some m \<Rightarrow> Some (max v m))"

text \<open>\<^verbatim>\<open>'max'\<close>: the greatest non-null cell, null when there is none.\<close>

definition max_pd :: "'a::linorder option list \<Rightarrow> 'a option" where
  "max_pd xs = max_list (notna xs)"

text \<open>\<^verbatim>\<open>'count'\<close>: the number of non-null cells.\<close>

definition count_pd :: "'a option list \<Rightarrow> nat" where
  "count_pd xs = length (notna xs)"

text \<open>\<^verbatim>\<open>unique()\<close>: the distinct values in order of first appearance.\<close>

definition unique :: "'a list \<Rightarrow> 'a list" where
  "unique xs = rev (remdups (rev xs))"

text \<open>
  \<^verbatim>\<open>Series.mode()\<close>: the non-null values that occur most often, sorted in ascending
  order; empty when every cell is null.
\<close>

definition mode_pd :: "'a::linorder option list \<Rightarrow> 'a list" where
  "mode_pd xs =
     (let vs = notna xs
      in sort (remdups (filter (\<lambda>v. Some (count_list vs v) = max_list (map (count_list vs) vs)) vs)))"

subsection \<open>Loading and aggregation (lines 14 to 42)\<close>

text \<open>Line 20: \<^verbatim>\<open>dropna(subset=['date_observed'])\<close>.\<close>

definition monitoring_df :: "observation list \<Rightarrow> observation list" where
  "monitoring_df rows = filter (\<lambda>r. date_observed r \<noteq> None) rows"

text \<open>
  \<^verbatim>\<open>groupby('Crop_id')\<close>: one group per distinct key, the groups in ascending key order,
  the rows of a group in their original order.
\<close>

definition group_keys :: "observation list \<Rightarrow> string list" where
  "group_keys df = sort (remdups (map Crop_id df))"

definition group_rows :: "observation list \<Rightarrow> string \<Rightarrow> observation list" where
  "group_rows df k = filter (\<lambda>r. Crop_id r = k) df"

definition agg_group :: "observation list \<Rightarrow> string \<Rightarrow> agg_cols" where
  "agg_group df k =
     (let g = group_rows df k
      in \<lparr> Crop_id_agg = Some k,
           avg_height = mean_pd (map height_cm g),
           last_stage = last_pd (map stage g),
           last_crop_health = last_pd (map crop_health g),
           last_observed = max_pd (map date_observed g),
           observations_count = Some (count_pd (map fid g)) \<rparr>)"

definition agg_monitoring :: "observation list \<Rightarrow> agg_cols list" where
  "agg_monitoring df = map (agg_group df) (group_keys df)"

subsection \<open>The join and the default fill (lines 47 to 64)\<close>

text \<open>The right-hand columns of a left row that no right row matches: all null.\<close>

definition null_cols :: agg_cols where
  "null_cols =
     \<lparr> Crop_id_agg = None, avg_height = None, last_stage = None, last_crop_health = None,
       last_observed = None, observations_count = None \<rparr>"

text \<open>
  \<^verbatim>\<open>merge(..., left_on='id', right_on='Crop_id', how='left')\<close>: the left rows in their
  order, each paired with every right row whose key equals its \<^verbatim>\<open>id\<close>, in the right
  table's order, or with nulls when there is no such row.
\<close>

definition merge_left :: "planting_centroid list \<Rightarrow> agg_cols list \<Rightarrow> merged list" where
  "merge_left ls rs =
     concat (map (\<lambda>l.
       (let ms = filter (\<lambda>r. Crop_id_agg r = Some (id_col l)) rs
        in if ms = [] then [\<lparr> left_cols = l, right_cols = null_cols \<rparr>]
           else map (\<lambda>r. \<lparr> left_cols = l, right_cols = r \<rparr>) ms)) ls)"

definition fill :: "'a \<Rightarrow> 'a option \<Rightarrow> 'a option" where
  "fill d c = (case c of None \<Rightarrow> Some d | Some v \<Rightarrow> Some v)"

text \<open>Lines 56 to 61: \<^verbatim>\<open>fillna\<close> with one default for each of four columns.\<close>

definition fillna :: "merged \<Rightarrow> merged" where
  "fillna m =
     m\<lparr> right_cols := (right_cols m)
          \<lparr> avg_height := fill 0 (avg_height (right_cols m)),
            last_stage := fill ''N/A'' (last_stage (right_cols m)),
            last_crop_health := fill ''N/A'' (last_crop_health (right_cols m)),
            observations_count := fill 0 (observations_count (right_cols m)) \<rparr> \<rparr>"

text \<open>
  \<^verbatim>\<open>merged_gdf\<close> as a function of the two loaded tables: rows dropped, aggregated, joined
  and filled.
\<close>

definition merged_gdf :: "planting_centroid list \<Rightarrow> observation list \<Rightarrow> merged list" where
  "merged_gdf planting_centroids rows =
     map fillna (merge_left planting_centroids (agg_monitoring (monitoring_df rows)))"

subsection \<open>The filter cascade (lines 71 to 92)\<close>

text \<open>
  Each \<^verbatim>\<open>selectbox\<close> returns one of its options; the selections are the inputs
  \<open>selected_crop\<close>, \<open>selected_variety\<close> and \<open>selected_stage\<close>. A comparison of a null cell
  with a string is false.
\<close>

definition crop_classes :: "merged list \<Rightarrow> string list" where
  "crop_classes g = unique (notna (map (\<lambda>r. crop_class (left_cols r)) g))"

definition select_crop :: "string \<Rightarrow> merged list \<Rightarrow> merged list" where
  "select_crop selected_crop g =
     (if selected_crop \<noteq> ''All''
      then filter (\<lambda>r. crop_class (left_cols r) = Some selected_crop) g else g)"

definition crop_varieties :: "string \<Rightarrow> merged list \<Rightarrow> string list" where
  "crop_varieties selected_crop g =
     (if selected_crop = ''All''
      then unique (notna (map (\<lambda>r. crop_varie (left_cols r)) g))
      else unique (notna (map (\<lambda>r. crop_varie (left_cols r))
             (filter (\<lambda>r. crop_class (left_cols r) = Some selected_crop) g))))"

definition select_variety :: "string \<Rightarrow> merged list \<Rightarrow> merged list" where
  "select_variety selected_variety g =
     (if selected_variety \<noteq> ''All''
      then filter (\<lambda>r. crop_varie (left_cols r) = Some selected_variety) g else g)"

definition stages :: "merged list \<Rightarrow> string list" where
  "stages g = unique (notna (map (\<lambda>r. last_stage (right_cols r)) g))"

definition select_stage :: "string \<Rightarrow> merged list \<Rightarrow> merged list" where
  "select_stage selected_stage g =
     (if selected_stage \<noteq> ''All''
      then filter (\<lambda>r. last_stage (right_cols r) = Some selected_stage) g else g)"

definition filtered_gdf :: "string \<Rightarrow> string \<Rightarrow> string \<Rightarrow> merged list \<Rightarrow> merged list" where
  "filtered_gdf selected_crop selected_variety selected_stage g =
     select_stage selected_stage (select_variety selected_variety (select_crop selected_crop g))"

subsection \<open>The map view (lines 100 to 153)\<close>

definition centroid_x :: "merged \<Rightarrow> rat option" where
  "centroid_x r = map_option fst (centroid (left_cols r))"

definition centroid_y :: "merged \<Rightarrow> rat option" where
  "centroid_y r = map_option snd (centroid (left_cols r))"

text \<open>Lines 100 to 103; \<^verbatim>\<open>Series.mean()\<close> skips the \<^verbatim>\<open>NaN\<close> cells.\<close>

definition farm_center :: "merged list \<Rightarrow> rat option \<times> rat option" where
  "farm_center g =
     (if g \<noteq> [] then (mean_pd (map centroid_y g), mean_pd (map centroid_x g))
      else (Some 0, Some 0))"

text \<open>A \<^verbatim>\<open>datetime.date\<close> in an f-string: \<^verbatim>\<open>YYYY-MM-DD\<close>.\<close>

definition digit :: "nat \<Rightarrow> char" where
  "digit n = ''0123456789'' ! (n mod 10)"

definition isoformat :: "date \<Rightarrow> string" where
  "isoformat d =
     (case d of (yr, mo, dy) \<Rightarrow>
        [digit (yr div 1000), digit (yr div 100), digit (yr div 10), digit yr] @ ''-'' @
        [digit (mo div 10), digit mo] @ ''-'' @ [digit (dy div 10), digit dy])"

text \<open>Line 141: the text after \<^verbatim>\<open>Date Observed:\<close> in a marker's popup.\<close>

definition popup_date_observed :: "merged \<Rightarrow> string" where
  "popup_date_observed row =
     (case last_observed (right_cols row) of
        Some t \<Rightarrow> isoformat (date_of t)
      | None \<Rightarrow> ''N/A'')"

subsection \<open>The progress view (lines 163 to 202)\<close>

text \<open>
  Line 171: the \<^verbatim>\<open>id\<close> of the first merged row with the selected plot;
  \<^verbatim>\<open>values[0]\<close> raises \<^verbatim>\<open>IndexError\<close> when there is none, which is \<open>None\<close> here.
\<close>

definition crop_id_of_plot :: "merged list \<Rightarrow> string \<Rightarrow> string option" where
  "crop_id_of_plot g selected_plot =
     (case filter (\<lambda>r. plot_id (left_cols r) = Some selected_plot) g of
        [] \<Rightarrow> None
      | r # _ \<Rightarrow> Some (id_col (left_cols r)))"

definition progress_df :: "observation list \<Rightarrow> string \<Rightarrow> observation list" where
  "progress_df df crop_id = filter (\<lambda>r. Crop_id r = crop_id) df"

text \<open>Line 178: \<^verbatim>\<open>x.mode()[0] if not x.mode().empty else 'N/A'\<close>.\<close>

definition avg_crop_health :: "string option list \<Rightarrow> string" where
  "avg_crop_health x = (case mode_pd x of [] \<Rightarrow> ''N/A'' | v # _ \<Rightarrow> v)"

definition date_rows :: "observation list \<Rightarrow> timestamp \<Rightarrow> observation list" where
  "date_rows df d = filter (\<lambda>r. date_observed r = Some d) df"

text \<open>
  Lines 176 to 179: one row (date, mean height, health) for each distinct date, in
  ascending date order.
\<close>

definition progress_agg :: "observation list \<Rightarrow> (timestamp \<times> rat option \<times> string) list" where
  "progress_agg df =
     map (\<lambda>d. (d, mean_pd (map height_cm (date_rows df d)),
                 avg_crop_health (map crop_health (date_rows df d))))
       (sort (remdups (notna (map date_observed df))))"

text \<open>
  The tie-break as the specification words it, for comparison with \<open>avg_crop_health\<close>:
  of the labels that occur most often, the one that comes first in row order.
\<close>

definition first_encountered_mode :: "string option list \<Rightarrow> string option" where
  "first_encountered_mode x =
     (let vs = notna x
      in find (\<lambda>v. Some (count_list vs v) = max_list (map (count_list vs) vs)) vs)"

subsection \<open>Example tables\<close>

text \<open>
  Four observation rows: two of crop "1" on the same date, the second without a row
  identifier; one of crop "1" whose date did not parse; one of crop "7" without a height.
  Three centroid rows: plots of crops "1" and "7", and one of crop "99", which has no
  observation.
\<close>

definition obs_a :: observation where
  "obs_a = \<lparr> Crop_id = ''1'', date_observed = Some (2024, 1, 5, 0), height_cm = Some 10,
             stage = Some ''Vegetative'', crop_health = Some ''Poor'', fid = Some 1 \<rparr>"

definition obs_b :: observation where
  "obs_b = \<lparr> Crop_id = ''1'', date_observed = Some (2024, 1, 5, 0), height_cm = Some 20,
             stage = Some ''Flowering'', crop_health = Some ''Good'', fid = None \<rparr>"

definition obs_bad :: observation where
  "obs_bad = \<lparr> Crop_id = ''1'', date_observed = None, height_cm = Some 99,
               stage = Some ''Harvest'', crop_health = Some ''Dead'', fid = Some 2 \<rparr>"

definition obs_nan :: observation where
  "obs_nan = \<lparr> Crop_id = ''7'', date_observed = Some (2024, 2, 1, 0), height_cm = None,
               stage = None, crop_health = None, fid = Some 3 \<rparr>"

definition pc_1 :: planting_centroid where
  "pc_1 = \<lparr> id_col = ''1'', plant_date = Some (2023, 11, 20), plot_id = Some ''P1'',
            block_id = Some ''B1'', crop_class = Some ''Cereal'', crop_varie = Some ''Maize'',
            centroid = Some (36, -1) \<rparr>"

definition pc_7 :: planting_centroid where
  "pc_7 = \<lparr> id_col = ''7'', plant_date = None, plot_id = Some ''P7'',
            block_id = Some ''B1'', crop_class = Some ''Legume'', crop_varie = Some ''Beans'',
            centroid = Some (38, 1) \<rparr>"

definition pc_99 :: planting_centroid where
  "pc_99 = \<lparr> id_col = ''99'', plant_date = None, plot_id = Some ''P99'',
             block_id = None, crop_class = None, crop_varie = Some ''Maize'',
             centroid = Some (37, 3) \<rparr>"

definition example_rows :: "observation list" where
  "example_rows = [obs_a, obs_bad, obs_b, obs_nan]"

definition example_centroids :: "planting_centroid list" where
  "example_centroids = [pc_1, pc_7, pc_99]"

section \<open>Facts about the reductions and the join\<close>

lemmas example_defs = example_rows_def example_centroids_def
  obs_a_def obs_b_def obs_bad_def obs_nan_def pc_1_def pc_7_def pc_99_def

lemmas pipeline_defs = merged_gdf_def merge_left_def agg_monitoring_def monitoring_df_def
  group_keys_def agg_group_def group_rows_def mean_pd_def max_pd_def count_pd_def last_pd_def
  fillna_def fill_def null_cols_def

lemma notna_Nil [simp]: "notna [] = []"
  by (simp add: notna_def)

lemma notna_Cons_Some [simp]: "notna (Some v # xs) = v # notna xs"
  by (simp add: notna_def)

lemma notna_Cons_None [simp]: "notna (None # xs) = notna xs"
  by (simp add: notna_def)

lemma notna_map_Some: "notna (map (\<lambda>x. Some (f x)) xs) = map f xs"
  by (induction xs) auto

lemma length_notna_eq: "length (notna xs) = length (filter (\<lambda>x. x \<noteq> None) xs)"
proof (induction xs)
  case Nil
  show ?case by simp
next
  case (Cons x xs)
  then show ?case by (cases x) auto
qed

lemma mean_pd_all: "xs \<noteq> [] \<Longrightarrow>
  mean_pd (map (\<lambda>x. Some (f x)) xs) = Some (sum_list (map f xs) / of_nat (length xs))"
  by (simp add: mean_pd_def notna_map_Some)

lemma mean_pd_all_null: "(\<forall>x \<in> set xs. x = None) \<Longrightarrow> mean_pd xs = None"
proof -
  assume "\<forall>x \<in> set xs. x = None"
  then have "notna xs = []" by (induction xs) auto
  then show ?thesis by (simp add: mean_pd_def)
qed

lemma last_pd_all_null: "(\<forall>x \<in> set xs. x = None) \<Longrightarrow> last_pd xs = None"
proof -
  assume "\<forall>x \<in> set xs. x = None"
  then have "notna xs = []" by (induction xs) auto
  then show ?thesis by (simp add: last_pd_def)
qed

lemma max_list_Some:
  "vs \<noteq> [] \<Longrightarrow> \<exists>m. max_list vs = Some m \<and> m \<in> set vs \<and> (\<forall>v \<in> set vs. v \<le> m)"
proof (induction vs)
  case Nil
  then show ?case by simp
next
  case (Cons a vs)
  show ?case
  proof (cases "vs = []")
    case True
    then show ?thesis by simp
  next
    case False
    with Cons.IH obtain m where m: "max_list vs = Some m" "m \<in> set vs" "\<forall>v \<in> set vs. v \<le> m"
      by blast
    then show ?thesis by (auto simp: max_def)
  qed
qed

subsection \<open>Groups and the join\<close>

lemma distinct_filter_eq:
  "distinct xs \<Longrightarrow> filter (\<lambda>x. x = k) xs = (if k \<in> set xs then [k] else [])"
  by (induction xs) auto

lemma set_group_keys [simp]: "set (group_keys df) = Crop_id ` set df"
  by (simp add: group_keys_def)

lemma distinct_group_keys [simp]: "distinct (group_keys df)"
  by (simp add: group_keys_def)

lemma Crop_id_agg_group [simp]: "Crop_id_agg (agg_group df k) = Some k"
  by (simp add: agg_group_def Let_def)

lemma agg_keys: "map Crop_id_agg (agg_monitoring df) = map Some (group_keys df)"
  by (simp add: agg_monitoring_def)

text \<open>The aggregate has one row with a given key if the key occurs, none otherwise.\<close>

lemma agg_matches:
  "filter (\<lambda>r. Crop_id_agg r = Some k) (agg_monitoring df)
   = (if k \<in> Crop_id ` set df then [agg_group df k] else [])"
proof -
  have "filter (\<lambda>r. Crop_id_agg r = Some k) (agg_monitoring df)
        = map (agg_group df) (filter (\<lambda>k'. k' = k) (group_keys df))"
    by (simp add: agg_monitoring_def filter_map comp_def)
  also have "\<dots> = (if k \<in> Crop_id ` set df then [agg_group df k] else [])"
    by (simp add: distinct_filter_eq)
  finally show ?thesis .
qed

lemma merge_left_agg:
  "merge_left pcs (agg_monitoring df)
   = map (\<lambda>l. \<lparr> left_cols = l,
                 right_cols = (if id_col l \<in> Crop_id ` set df
                               then agg_group df (id_col l) else null_cols) \<rparr>) pcs"
  by (induction pcs) (simp_all add: merge_left_def agg_matches)

lemma left_cols_fillna [simp]: "left_cols (fillna m) = left_cols m"
  by (simp add: fillna_def)

text \<open>The merged table, row by row.\<close>

lemma merged_gdf_rows:
  "merged_gdf pcs rows
   = map (\<lambda>l. fillna \<lparr> left_cols = l,
                 right_cols = (if id_col l \<in> Crop_id ` set (monitoring_df rows)
                               then agg_group (monitoring_df rows) (id_col l)
                               else null_cols) \<rparr>) pcs"
  by (simp add: merged_gdf_def merge_left_agg)

lemma fillna_null:
  "fillna \<lparr> left_cols = l, right_cols = null_cols \<rparr>
   = \<lparr> left_cols = l,
       right_cols = \<lparr> Crop_id_agg = None, avg_height = Some 0, last_stage = Some ''N/A'',
                      last_crop_health = Some ''N/A'', last_observed = None,
                      observations_count = Some 0 \<rparr> \<rparr>"
  by (simp add: fillna_def null_cols_def fill_def)

lemma unmatched_key:
  "Some k \<notin> set (map Crop_id_agg (agg_monitoring df)) \<Longrightarrow> k \<notin> Crop_id ` set df"
  by (auto simp: agg_keys)

lemma merged_gdf_unmatched:
  assumes "i < length pcs"
    and "Some (id_col (pcs ! i)) \<notin> set (map Crop_id_agg (agg_monitoring (monitoring_df rows)))"
  shows "merged_gdf pcs rows ! i
   = \<lparr> left_cols = pcs ! i,
       right_cols = \<lparr> Crop_id_agg = None, avg_height = Some 0, last_stage = Some ''N/A'',
                      last_crop_health = Some ''N/A'', last_observed = None,
                      observations_count = Some 0 \<rparr> \<rparr>"
proof -
  from assms(2) have "id_col (pcs ! i) \<notin> Crop_id ` set (monitoring_df rows)"
    by (rule unmatched_key)
  with assms(1) show ?thesis
    by (simp add: merged_gdf_rows fillna_null)
qed

subsection \<open>The mode\<close>

lemma sorted_hd_le: "sorted (c # cs) \<Longrightarrow> v \<in> set (c # cs) \<Longrightarrow> c \<le> v"
  by auto

lemma mode_pd_Nil: "notna x = [] \<Longrightarrow> mode_pd x = []"
  by (simp add: mode_pd_def)

text \<open>
  When a column has a non-null cell, the first of its modes is a value of the column that
  no value outnumbers, and the least of the values that occur as often.
\<close>

lemma mode_pd_Cons:
  assumes "notna x \<noteq> []"
  shows "\<exists>c cs. mode_pd x = c # cs \<and> c \<in> set (notna x)
    \<and> (\<forall>v \<in> set (notna x). count_list (notna x) v \<le> count_list (notna x) c)
    \<and> (\<forall>v \<in> set (notna x). count_list (notna x) v = count_list (notna x) c \<longrightarrow> c \<le> v)"
proof -
  define vs where "vs = notna x"
  define cands where
    "cands = filter (\<lambda>v. Some (count_list vs v) = max_list (map (count_list vs) vs)) vs"
  have md: "mode_pd x = sort (remdups cands)"
    by (simp add: mode_pd_def vs_def cands_def Let_def)
  from assms have "map (count_list vs) vs \<noteq> []" by (simp add: vs_def)
  from max_list_Some [OF this] obtain m where
    m: "max_list (map (count_list vs) vs) = Some m" "m \<in> set (map (count_list vs) vs)"
       "\<forall>n \<in> set (map (count_list vs) vs). n \<le> m"
    by blast
  have cands: "set cands = {v \<in> set vs. count_list vs v = m}"
    by (auto simp: cands_def m(1))
  from m(2) have "set cands \<noteq> {}" by (auto simp: cands)
  then have "sort (remdups cands) \<noteq> []"
    by (metis set_empty set_remdups set_sort)
  then obtain c cs where ccs: "sort (remdups cands) = c # cs"
    by (cases "sort (remdups cands)") auto
  have set_eq: "set (c # cs) = set cands"
    by (metis ccs set_remdups set_sort)
  have srt: "sorted (c # cs)"
    by (metis ccs sorted_sort)
  have c_in: "c \<in> set cands" using set_eq by auto
  then have c1: "c \<in> set vs" and c2: "count_list vs c = m" by (auto simp: cands)
  have le: "\<forall>v \<in> set vs. count_list vs v \<le> count_list vs c"
    using m(3) c2 by auto
  have least: "\<forall>v \<in> set vs. count_list vs v = count_list vs c \<longrightarrow> c \<le> v"
  proof (intro ballI impI)
    fix v assume "v \<in> set vs" "count_list vs v = count_list vs c"
    then have "v \<in> set cands" by (simp add: cands c2)
    then have "v \<in> set (c # cs)" by (simp only: set_eq)
    with srt show "c \<le> v" by (rule sorted_hd_le)
  qed
  from md ccs c1 le least show ?thesis by (simp add: vs_def)
qed

lemma avg_crop_health_Nil: "notna x = [] \<Longrightarrow> avg_crop_health x = ''N/A''"
  by (simp add: avg_crop_health_def mode_pd_Nil)

lemma avg_crop_health_mode:
  assumes "notna x \<noteq> []"
  shows "avg_crop_health x \<in> set (notna x)
    \<and> (\<forall>v \<in> set (notna x). count_list (notna x) v \<le> count_list (notna x) (avg_crop_health x))
    \<and> (\<forall>v \<in> set (notna x). count_list (notna x) v = count_list (notna x) (avg_crop_health x)
          \<longrightarrow> avg_crop_health x \<le> v)"
proof -
  from mode_pd_Cons [OF assms] obtain c cs where
    c: "mode_pd x = c # cs" "c \<in> set (notna x)"
      "\<forall>v \<in> set (notna x). count_list (notna x) v \<le> count_list (notna x) c"
      "\<forall>v \<in> set (notna x). count_list (notna x) v = count_list (notna x) c \<longrightarrow> c \<le> v"
    by blast
  from c(1) have "avg_crop_health x = c" by (simp add: avg_crop_health_def)
  with c show ?thesis by simp
qed

subsection \<open>The map centre\<close>

lemma centroid_cols:
  "map (\<lambda>r. centroid (left_cols r)) g = map Some pts \<Longrightarrow>
   map centroid_y g = map (\<lambda>p. Some (snd p)) pts \<and> map centroid_x g = map (\<lambda>p. Some (fst p)) pts
   \<and> length pts = length g"
  by (induction g arbitrary: pts) (auto simp: centroid_x_def centroid_y_def)

subsection \<open>The pipeline on the example tables\<close>

lemma example_monitoring_df: "monitoring_df example_rows = [obs_a, obs_b, obs_nan]"
  by (simp add: example_defs monitoring_df_def)

lemma example_agg_monitoring:
  "agg_monitoring (monitoring_df example_rows)
   = [ \<lparr> Crop_id_agg = Some ''1'', avg_height = Some 15, last_stage = Some ''Flowering'',
         last_crop_health = Some ''Good'', last_observed = Some (2024, 1, 5, 0),
         observations_count = Some 1 \<rparr>,
       \<lparr> Crop_id_agg = Some ''7'', avg_height = None, last_stage = None,
         last_crop_health = None, last_observed = Some (2024, 2, 1, 0),
         observations_count = Some 1 \<rparr> ]"
  by (simp add: example_defs pipeline_defs)

lemma example_merged_gdf:
  "merged_gdf example_centroids example_rows
   = [ \<lparr> left_cols = pc_1, right_cols = \<lparr> Crop_id_agg = Some ''1'', avg_height = Some 15,
           last_stage = Some ''Flowering'', last_crop_health = Some ''Good'',
           last_observed = Some (2024, 1, 5, 0), observations_count = Some 1 \<rparr> \<rparr>,
       \<lparr> left_cols = pc_7, right_cols = \<lparr> Crop_id_agg = Some ''7'', avg_height = Some 0,
           last_stage = Some ''N/A'', last_crop_health = Some ''N/A'',
           last_observed = Some (2024, 2, 1, 0), observations_count = Some 1 \<rparr> \<rparr>,
       \<lparr> left_cols = pc_99, right_cols = \<lparr> Crop_id_agg = None, avg_height = Some 0,
           last_stage = Some ''N/A'', last_crop_health = Some ''N/A'',
           last_observed = None, observations_count = Some 0 \<rparr> \<rparr> ]"
  by (simp add: example_defs pipeline_defs)

lemma example_progress_df:
  "progress_df (monitoring_df example_rows) ''1'' = [obs_a, obs_b]"
  by (simp add: example_monitoring_df progress_df_def) (simp add: example_defs)

lemma example_progress_agg:
  "progress_agg [obs_a, obs_b] = [((2024, 1, 5, 0), Some 15, ''Good'')]"
  by (simp add: example_defs progress_agg_def date_rows_def mean_pd_def avg_crop_health_def
      mode_pd_def)

section \<open>Aggregation\<close>

text \<open>
  C5. The two observation rows (crop "1", 2024-01-05, height 10) and (crop "1", 2024-01-10,
  height 20), whose row identifiers are present, in either row order and whatever their
  stage and health cells hold, aggregate to the single record of crop "1" with
  \<open>avg_height = 15\<close>, \<open>observations_count = 2\<close> and \<open>last_observed\<close> 2024-01-10.
\<close>

theorem agg_monitoring_example:
  fixes s1 s2 h1 h2 :: "string option" and f1 f2 :: int
  defines "r1 \<equiv> \<lparr> Crop_id = ''1'', date_observed = Some (2024, 1, 5, 0), height_cm = Some 10,
                   stage = s1, crop_health = h1, fid = Some f1 \<rparr>"
      and "r2 \<equiv> \<lparr> Crop_id = ''1'', date_observed = Some (2024, 1, 10, 0), height_cm = Some 20,
                   stage = s2, crop_health = h2, fid = Some f2 \<rparr>"
  shows "map (\<lambda>a. (Crop_id_agg a, avg_height a, observations_count a, last_observed a))
           (agg_monitoring (monitoring_df [r1, r2]))
         = [(Some ''1'', Some 15, Some 2, Some (2024, 1, 10, 0))]
       \<and> map (\<lambda>a. (Crop_id_agg a, avg_height a, observations_count a, last_observed a))
           (agg_monitoring (monitoring_df [r2, r1]))
         = [(Some ''1'', Some 15, Some 2, Some (2024, 1, 10, 0))]"
  by (simp add: r1_def r2_def agg_monitoring_def monitoring_df_def group_keys_def agg_group_def
      group_rows_def mean_pd_def max_pd_def count_pd_def)

text \<open>
  C3. An observation row whose date did not parse is not in the table that is aggregated,
  and the aggregate, hence every field of every aggregate record, and the merged table are
  the same as if the row had not been in the input.
\<close>

theorem unparsed_date_row_dropped:
  assumes "date_observed r = None"
  shows "r \<notin> set (monitoring_df (xs @ r # ys))
    \<and> monitoring_df (xs @ r # ys) = monitoring_df (xs @ ys)
    \<and> agg_monitoring (monitoring_df (xs @ r # ys)) = agg_monitoring (monitoring_df (xs @ ys))
    \<and> merged_gdf pcs (xs @ r # ys) = merged_gdf pcs (xs @ ys)"
  using assms by (simp add: monitoring_df_def merged_gdf_def)

theorem unparsed_date_row_dropped_witness:
  "date_observed obs_bad = None
   \<and> obs_bad \<notin> set (monitoring_df ([obs_a] @ obs_bad # [obs_b, obs_nan]))
   \<and> agg_monitoring (monitoring_df ([obs_a] @ obs_bad # [obs_b, obs_nan]))
     = agg_monitoring (monitoring_df ([obs_a] @ [obs_b, obs_nan]))
   \<and> map avg_height (agg_monitoring (monitoring_df ([obs_a] @ [obs_b, obs_nan])))
     = [Some 15, None]"
proof -
  have h: "date_observed obs_bad = None"
    by (simp add: obs_bad_def)
  have e: "map avg_height (agg_monitoring (monitoring_df ([obs_a] @ [obs_b, obs_nan])))
           = [Some 15, None]"
    by (simp add: example_defs pipeline_defs)
  note t = unparsed_date_row_dropped [OF h, of "[obs_a]" "[obs_b, obs_nan]" "[]"]
  from t have a: "obs_bad \<notin> set (monitoring_df ([obs_a] @ obs_bad # [obs_b, obs_nan]))"
    by (rule conjunct1)
  from t have b: "agg_monitoring (monitoring_df ([obs_a] @ obs_bad # [obs_b, obs_nan]))
                  = agg_monitoring (monitoring_df ([obs_a] @ [obs_b, obs_nan]))"
    by (elim conjE)
  from h a b e show ?thesis by (intro conjI)
qed

text \<open>
  C7, as amended. \<open>observations_count\<close> of a crop's aggregate record is the number of the
  group's rows whose \<open>fid\<close> is not null; it is the number of rows of the group when no
  \<open>fid\<close> of the group is null.
\<close>

theorem observations_count_nonnull_fid:
  assumes "a \<in> set (agg_monitoring df)" and "Crop_id_agg a = Some k"
  shows "observations_count a = Some (length (filter (\<lambda>r. fid r \<noteq> None) (group_rows df k)))
    \<and> ((\<forall>r \<in> set (group_rows df k). fid r \<noteq> None) \<longrightarrow>
          observations_count a = Some (length (group_rows df k)))"
proof -
  from assms have a: "a = agg_group df k"
    by (auto simp: agg_monitoring_def)
  have "observations_count a = Some (length (filter (\<lambda>r. fid r \<noteq> None) (group_rows df k)))"
    by (simp add: a agg_group_def Let_def count_pd_def length_notna_eq filter_map comp_def)
  then show ?thesis by simp
qed

theorem observations_count_nonnull_fid_witness:
  "agg_group [obs_a, obs_b, obs_nan] ''7'' \<in> set (agg_monitoring [obs_a, obs_b, obs_nan])
   \<and> Crop_id_agg (agg_group [obs_a, obs_b, obs_nan] ''7'') = Some ''7''
   \<and> map fid (group_rows [obs_a, obs_b, obs_nan] ''7'') = [Some 3]
   \<and> observations_count (agg_group [obs_a, obs_b, obs_nan] ''7'') = Some 1"
proof -
  have h1: "agg_group [obs_a, obs_b, obs_nan] ''7'' \<in> set (agg_monitoring [obs_a, obs_b, obs_nan])"
    by (simp add: agg_monitoring_def example_defs)
  have h2: "Crop_id_agg (agg_group [obs_a, obs_b, obs_nan] ''7'') = Some ''7''"
    by simp
  have g: "group_rows [obs_a, obs_b, obs_nan] ''7'' = [obs_nan]"
    by (simp add: group_rows_def example_defs)
  from observations_count_nonnull_fid [OF h1 h2] h1 g show ?thesis
    by (simp add: obs_nan_def)
qed

text \<open>
  C7 as stated fails: crop "1" has two rows in the aggregated table, the second without a
  row identifier, and its \<open>observations_count\<close> is 1.
\<close>

theorem observations_count_rows_counterexample:
  "map (\<lambda>a. (Crop_id_agg a, observations_count a)) (agg_monitoring (monitoring_df example_rows))
     = [(Some ''1'', Some 1), (Some ''7'', Some 1)]
   \<and> length (group_rows (monitoring_df example_rows) ''1'') = 2
   \<and> observations_count (hd (agg_monitoring (monitoring_df example_rows)))
     \<noteq> Some (length (group_rows (monitoring_df example_rows) ''1''))"
proof -
  have g: "length (group_rows (monitoring_df example_rows) ''1'') = 2"
    by (simp add: example_defs monitoring_df_def group_rows_def)
  show ?thesis
    by (simp add: example_agg_monitoring g)
qed

section \<open>The join\<close>

text \<open>
  C1. The centroid columns of the merged table are the centroid table itself, row for row:
  each centroid row gives exactly one merged row, matched or not, since the keys of the
  aggregate are distinct.
\<close>

theorem left_join_cardinality:
  "map left_cols (merged_gdf pcs rows) = pcs
   \<and> length (merged_gdf pcs rows) = length pcs
   \<and> distinct (map Crop_id_agg (agg_monitoring (monitoring_df rows)))"
  by (simp add: merged_gdf_rows comp_def agg_keys distinct_map)

text \<open>
  C2. The merged row of a centroid row whose \<open>id\<close> is no key of the aggregate has
  \<open>avg_height = 0\<close>, \<open>last_stage = "N/A"\<close>, \<open>last_crop_health = "N/A"\<close> and
  \<open>observations_count = 0\<close>.
\<close>

theorem unmatched_defaults:
  assumes "i < length pcs"
    and "Some (id_col (pcs ! i)) \<notin> set (map Crop_id_agg (agg_monitoring (monitoring_df rows)))"
  shows "left_cols (merged_gdf pcs rows ! i) = pcs ! i
    \<and> avg_height (right_cols (merged_gdf pcs rows ! i)) = Some 0
    \<and> last_stage (right_cols (merged_gdf pcs rows ! i)) = Some ''N/A''
    \<and> last_crop_health (right_cols (merged_gdf pcs rows ! i)) = Some ''N/A''
    \<and> observations_count (right_cols (merged_gdf pcs rows ! i)) = Some 0"
  by (simp add: merged_gdf_unmatched [OF assms])

theorem unmatched_defaults_witness:
  "2 < length example_centroids
   \<and> id_col (example_centroids ! 2) = ''99''
   \<and> map Crop_id_agg (agg_monitoring (monitoring_df example_rows)) = [Some ''1'', Some ''7'']
   \<and> avg_height (right_cols (merged_gdf example_centroids example_rows ! 2)) = Some 0
   \<and> last_stage (right_cols (merged_gdf example_centroids example_rows ! 2)) = Some ''N/A''
   \<and> last_crop_health (right_cols (merged_gdf example_centroids example_rows ! 2)) = Some ''N/A''
   \<and> observations_count (right_cols (merged_gdf example_centroids example_rows ! 2)) = Some 0"
proof -
  have h1: "2 < length example_centroids"
    by (simp add: example_centroids_def)
  have k: "id_col (example_centroids ! 2) = ''99''"
    by (simp add: example_centroids_def pc_99_def)
  have ks: "map Crop_id_agg (agg_monitoring (monitoring_df example_rows)) = [Some ''1'', Some ''7'']"
    by (simp add: example_agg_monitoring)
  have h2: "Some (id_col (example_centroids ! 2))
            \<notin> set (map Crop_id_agg (agg_monitoring (monitoring_df example_rows)))"
    by (simp add: k ks)
  from unmatched_defaults [OF h1 h2] h1 k ks show ?thesis by simp
qed

text \<open>
  C9. The fill replaces every null of the four listed columns, in matched rows too. In the
  merged row of a centroid row whose crop has observation rows, each listed column holds
  the aggregate's value when that is not null and the column's default when it is. So when
  the crop's rows are all without a height, the aggregate's \<open>avg_height\<close> is null and the
  merged \<open>avg_height\<close> is 0, as it is for a centroid row without observations; likewise
  \<open>last_stage\<close> and \<open>last_crop_health\<close> are \<open>N/A\<close> when no row of the crop has a stage
  or a health label. No listed column is null in any merged row.
\<close>

theorem fillna_covers_matched_rows:
  fixes pcs :: "planting_centroid list" and rows :: "observation list" and i :: nat
  assumes "i < length pcs"
  defines "df \<equiv> monitoring_df rows"
      and "k \<equiv> id_col (pcs ! i)"
      and "m \<equiv> right_cols (merged_gdf pcs rows ! i)"
  shows "(k \<in> Crop_id ` set df \<longrightarrow>
            agg_group df k \<in> set (agg_monitoring df)
          \<and> Crop_id_agg m = Some k
          \<and> avg_height m
              = (case avg_height (agg_group df k) of None \<Rightarrow> Some 0 | Some v \<Rightarrow> Some v)
          \<and> last_stage m
              = (case last_stage (agg_group df k) of None \<Rightarrow> Some ''N/A'' | Some v \<Rightarrow> Some v)
          \<and> last_crop_health m
              = (case last_crop_health (agg_group df k) of None \<Rightarrow> Some ''N/A'' | Some v \<Rightarrow> Some v)
          \<and> observations_count m
              = (case observations_count (agg_group df k) of None \<Rightarrow> Some 0 | Some v \<Rightarrow> Some v)
          \<and> last_observed m = last_observed (agg_group df k))
       \<and> (k \<in> Crop_id ` set df \<and> (\<forall>r \<in> set df. Crop_id r = k \<longrightarrow> height_cm r = None)
          \<longrightarrow> avg_height (agg_group df k) = None \<and> avg_height m = Some 0)
       \<and> (k \<in> Crop_id ` set df \<and> (\<forall>r \<in> set df. Crop_id r = k \<longrightarrow> stage r = None)
          \<longrightarrow> last_stage (agg_group df k) = None \<and> last_stage m = Some ''N/A'')
       \<and> (k \<in> Crop_id ` set df \<and> (\<forall>r \<in> set df. Crop_id r = k \<longrightarrow> crop_health r = None)
          \<longrightarrow> last_crop_health (agg_group df k) = None \<and> last_crop_health m = Some ''N/A'')
       \<and> (k \<notin> Crop_id ` set df \<longrightarrow> Crop_id_agg m = None \<and> avg_height m = Some 0)
       \<and> avg_height m \<noteq> None \<and> last_stage m \<noteq> None \<and> last_crop_health m \<noteq> None
       \<and> observations_count m \<noteq> None"
proof -
  have matched: "m = right_cols (fillna \<lparr> left_cols = pcs ! i, right_cols = agg_group df k \<rparr>)"
    if "k \<in> Crop_id ` set df"
    using that assms(1) by (simp add: m_def k_def df_def merged_gdf_rows)
  have unmatched: "m = right_cols (fillna \<lparr> left_cols = pcs ! i, right_cols = null_cols \<rparr>)"
    if "k \<notin> Crop_id ` set df"
    using that assms(1) by (simp add: m_def k_def df_def merged_gdf_rows)
  have cols: "agg_group df k \<in> set (agg_monitoring df)
      \<and> Crop_id_agg m = Some k
      \<and> avg_height m
          = (case avg_height (agg_group df k) of None \<Rightarrow> Some 0 | Some v \<Rightarrow> Some v)
      \<and> last_stage m
          = (case last_stage (agg_group df k) of None \<Rightarrow> Some ''N/A'' | Some v \<Rightarrow> Some v)
      \<and> last_crop_health m
          = (case last_crop_health (agg_group df k) of None \<Rightarrow> Some ''N/A'' | Some v \<Rightarrow> Some v)
      \<and> observations_count m
          = (case observations_count (agg_group df k) of None \<Rightarrow> Some 0 | Some v \<Rightarrow> Some v)
      \<and> last_observed m = last_observed (agg_group df k)"
    if h: "k \<in> Crop_id ` set df"
  proof -
    from h have "agg_group df k \<in> set (agg_monitoring df)"
      by (simp add: agg_monitoring_def)
    then show ?thesis
      by (simp add: matched [OF h] fillna_def fill_def)
  qed
  have heights: "avg_height (agg_group df k) = None"
    if "\<forall>r \<in> set df. Crop_id r = k \<longrightarrow> height_cm r = None"
  proof -
    from that have "\<forall>x \<in> set (map height_cm (group_rows df k)). x = None"
      by (auto simp: group_rows_def)
    then have "mean_pd (map height_cm (group_rows df k)) = None"
      by (rule mean_pd_all_null)
    then show ?thesis by (simp add: agg_group_def Let_def)
  qed
  have stages: "last_stage (agg_group df k) = None"
    if "\<forall>r \<in> set df. Crop_id r = k \<longrightarrow> stage r = None"
  proof -
    from that have "\<forall>x \<in> set (map stage (group_rows df k)). x = None"
      by (auto simp: group_rows_def)
    then have "last_pd (map stage (group_rows df k)) = None"
      by (rule last_pd_all_null)
    then show ?thesis by (simp add: agg_group_def Let_def)
  qed
  have healths: "last_crop_health (agg_group df k) = None"
    if "\<forall>r \<in> set df. Crop_id r = k \<longrightarrow> crop_health r = None"
  proof -
    from that have "\<forall>x \<in> set (map crop_health (group_rows df k)). x = None"
      by (auto simp: group_rows_def)
    then have "last_pd (map crop_health (group_rows df k)) = None"
      by (rule last_pd_all_null)
    then show ?thesis by (simp add: agg_group_def Let_def)
  qed
  have un: "Crop_id_agg m = None \<and> avg_height m = Some 0" if h: "k \<notin> Crop_id ` set df"
    by (simp add: unmatched [OF h] fillna_null)
  have filled: "avg_height m \<noteq> None \<and> last_stage m \<noteq> None \<and> last_crop_health m \<noteq> None
      \<and> observations_count m \<noteq> None"
  proof (cases "k \<in> Crop_id ` set df")
    case True
    then show ?thesis
      by (simp add: matched [OF True] fillna_def fill_def split: option.split)
  next
    case False
    then show ?thesis
      by (simp add: unmatched [OF False] fillna_null)
  qed
  show ?thesis
  proof (intro conjI impI)
    show "avg_height (agg_group df k) = None"
      if "k \<in> Crop_id ` set df \<and> (\<forall>r \<in> set df. Crop_id r = k \<longrightarrow> height_cm r = None)"
      by (rule heights) (use that in simp)
    show "avg_height m = Some 0"
      if "k \<in> Crop_id ` set df \<and> (\<forall>r \<in> set df. Crop_id r = k \<longrightarrow> height_cm r = None)"
      using that heights cols by simp
    show "last_stage (agg_group df k) = None"
      if "k \<in> Crop_id ` set df \<and> (\<forall>r \<in> set df. Crop_id r = k \<longrightarrow> stage r = None)"
      by (rule stages) (use that in simp)
    show "last_stage m = Some ''N/A''"
      if "k \<in> Crop_id ` set df \<and> (\<forall>r \<in> set df. Crop_id r = k \<longrightarrow> stage r = None)"
      using that stages cols by simp
    show "last_crop_health (agg_group df k) = None"
      if "k \<in> Crop_id ` set df \<and> (\<forall>r \<in> set df. Crop_id r = k \<longrightarrow> crop_health r = None)"
      by (rule healths) (use that in simp)
    show "last_crop_health m = Some ''N/A''"
      if "k \<in> Crop_id ` set df \<and> (\<forall>r \<in> set df. Crop_id r = k \<longrightarrow> crop_health r = None)"
      using that healths cols by simp
  qed (use cols un filled in simp_all)
qed

theorem fillna_covers_matched_rows_witness:
  "1 < length example_centroids
   \<and> id_col (example_centroids ! 1) = ''7''
   \<and> map (\<lambda>r. (Crop_id r, height_cm r, stage r, crop_health r)) (monitoring_df example_rows)
       = [(''1'', Some 10, Some ''Vegetative'', Some ''Poor''),
          (''1'', Some 20, Some ''Flowering'', Some ''Good''),
          (''7'', None, None, None)]
   \<and> Crop_id_agg (right_cols (merged_gdf example_centroids example_rows ! 1)) = Some ''7''
   \<and> avg_height (right_cols (merged_gdf example_centroids example_rows ! 1)) = Some 0
   \<and> last_stage (right_cols (merged_gdf example_centroids example_rows ! 1)) = Some ''N/A''
   \<and> last_crop_health (right_cols (merged_gdf example_centroids example_rows ! 1)) = Some ''N/A''
   \<and> observations_count (right_cols (merged_gdf example_centroids example_rows ! 1)) = Some 1
   \<and> Crop_id_agg (right_cols (merged_gdf example_centroids example_rows ! 2)) = None
   \<and> avg_height (right_cols (merged_gdf example_centroids example_rows ! 2)) = Some 0"
proof -
  have h1: "1 < length example_centroids" and h2: "2 < length example_centroids"
    by (simp_all add: example_centroids_def)
  have k1: "id_col (example_centroids ! 1) = ''7''"
    and k2: "id_col (example_centroids ! 2) = ''99''"
    by (simp_all add: example_centroids_def pc_7_def pc_99_def)
  have m: "map (\<lambda>r. (Crop_id r, height_cm r, stage r, crop_health r)) (monitoring_df example_rows)
           = [(''1'', Some 10, Some ''Vegetative'', Some ''Poor''),
              (''1'', Some 20, Some ''Flowering'', Some ''Good''),
              (''7'', None, None, None)]"
    by (simp add: example_monitoring_df) (simp add: example_defs)
  have d: "monitoring_df example_rows = [obs_a, obs_b, obs_nan]"
    by (rule example_monitoring_df)
  have c0: "id_col (example_centroids ! 1) \<in> Crop_id ` set (monitoring_df example_rows)"
    unfolding k1 d by (simp add: example_defs)
  have c1: "\<forall>r \<in> set (monitoring_df example_rows).
              Crop_id r = id_col (example_centroids ! 1) \<longrightarrow> height_cm r = None"
    unfolding k1 d by (simp add: example_defs)
  have c2: "\<forall>r \<in> set (monitoring_df example_rows).
              Crop_id r = id_col (example_centroids ! 1) \<longrightarrow> stage r = None"
    unfolding k1 d by (simp add: example_defs)
  have c3: "\<forall>r \<in> set (monitoring_df example_rows).
              Crop_id r = id_col (example_centroids ! 1) \<longrightarrow> crop_health r = None"
    unfolding k1 d by (simp add: example_defs)
  have c4: "id_col (example_centroids ! 2) \<notin> Crop_id ` set (monitoring_df example_rows)"
    unfolding k2 d by (simp add: example_defs)
  note t1 = fillna_covers_matched_rows [OF h1, of example_rows]
  note t2 = fillna_covers_matched_rows [OF h2, of example_rows]
  from t1 c0 have a: "Crop_id_agg (right_cols (merged_gdf example_centroids example_rows ! 1))
                      = Some (id_col (example_centroids ! 1))"
    by blast
  from t1 c0 c1 have b: "avg_height (right_cols (merged_gdf example_centroids example_rows ! 1)) = Some 0"
    by blast
  from t1 c0 c2 have c: "last_stage (right_cols (merged_gdf example_centroids example_rows ! 1))
                         = Some ''N/A''"
    by blast
  from t1 c0 c3 have e: "last_crop_health (right_cols (merged_gdf example_centroids example_rows ! 1))
                         = Some ''N/A''"
    by blast
  have f: "observations_count (right_cols (merged_gdf example_centroids example_rows ! 1)) = Some 1"
    by (simp add: example_merged_gdf)
  from t2 c4 have g: "Crop_id_agg (right_cols (merged_gdf example_centroids example_rows ! 2)) = None
      \<and> avg_height (right_cols (merged_gdf example_centroids example_rows ! 2)) = Some 0"
    by blast
  from h1 k1 m a b c e f g show ?thesis by (simp only: k1)
qed

text \<open>
  C10. The fill leaves \<open>last_observed\<close> as it is. In the merged row of a centroid row
  whose \<open>id\<close> is no key of the aggregate, \<open>last_observed\<close> is null, the four filled
  columns hold their defaults, and the popup shows \<open>N/A\<close> for the date.
\<close>

theorem last_observed_not_filled:
  assumes "i < length pcs"
    and "Some (id_col (pcs ! i)) \<notin> set (map Crop_id_agg (agg_monitoring (monitoring_df rows)))"
  shows "last_observed (right_cols (fillna m)) = last_observed (right_cols m)
    \<and> last_observed (right_cols (merged_gdf pcs rows ! i)) = None
    \<and> popup_date_observed (merged_gdf pcs rows ! i) = ''N/A''
    \<and> avg_height (right_cols (merged_gdf pcs rows ! i)) = Some 0
    \<and> last_stage (right_cols (merged_gdf pcs rows ! i)) = Some ''N/A''
    \<and> last_crop_health (right_cols (merged_gdf pcs rows ! i)) = Some ''N/A''
    \<and> observations_count (right_cols (merged_gdf pcs rows ! i)) = Some 0"
  by (simp add: merged_gdf_unmatched [OF assms] popup_date_observed_def) (simp add: fillna_def)

theorem last_observed_not_filled_witness:
  "2 < length example_centroids
   \<and> id_col (example_centroids ! 2) = ''99''
   \<and> map Crop_id_agg (agg_monitoring (monitoring_df example_rows)) = [Some ''1'', Some ''7'']
   \<and> last_observed (right_cols (merged_gdf example_centroids example_rows ! 2)) = None
   \<and> popup_date_observed (merged_gdf example_centroids example_rows ! 2) = ''N/A''
   \<and> popup_date_observed (merged_gdf example_centroids example_rows ! 0) = ''2024-01-05''"
proof -
  have h1: "2 < length example_centroids"
    by (simp add: example_centroids_def)
  have k: "id_col (example_centroids ! 2) = ''99''"
    by (simp add: example_centroids_def pc_99_def)
  have ks: "map Crop_id_agg (agg_monitoring (monitoring_df example_rows)) = [Some ''1'', Some ''7'']"
    by (simp add: example_agg_monitoring)
  have h2: "Some (id_col (example_centroids ! 2))
            \<notin> set (map Crop_id_agg (agg_monitoring (monitoring_df example_rows)))"
    by (simp add: k ks)
  have p: "popup_date_observed (merged_gdf example_centroids example_rows ! 0) = ''2024-01-05''"
    by (simp add: example_merged_gdf popup_date_observed_def isoformat_def date_of_def digit_def)
  from last_observed_not_filled [OF h1 h2] h1 k ks p show ?thesis by simp
qed

section \<open>The filter cascade\<close>

text \<open>
  C4. At each of the three levels, the selection \<open>All\<close> returns the table it is given, and
  any other selection returns exactly the rows whose field (crop class, crop variety, last
  stage) is the selected value, in their order. The cascade is the three levels in sequence,
  so it keeps the rows that pass every level that is not set to \<open>All\<close>.
\<close>

theorem filter_cascade_levels:
  "(sel = ''All'' \<longrightarrow> select_crop sel g = g \<and> select_variety sel g = g \<and> select_stage sel g = g)
 \<and> (sel \<noteq> ''All'' \<longrightarrow>
       select_crop sel g = filter (\<lambda>r. crop_class (left_cols r) = Some sel) g
     \<and> select_variety sel g = filter (\<lambda>r. crop_varie (left_cols r) = Some sel) g
     \<and> select_stage sel g = filter (\<lambda>r. last_stage (right_cols r) = Some sel) g)
 \<and> filtered_gdf sc sv ss g = select_stage ss (select_variety sv (select_crop sc g))
 \<and> filtered_gdf sc sv ss g
     = filter (\<lambda>r. (sc = ''All'' \<or> crop_class (left_cols r) = Some sc)
                \<and> (sv = ''All'' \<or> crop_varie (left_cols r) = Some sv)
                \<and> (ss = ''All'' \<or> last_stage (right_cols r) = Some ss)) g"
  by (auto simp: select_crop_def select_variety_def select_stage_def filtered_gdf_def
      intro: filter_cong)

theorem filter_cascade_levels_witness:
  "crop_classes (merged_gdf example_centroids example_rows) = [''Cereal'', ''Legume'']
   \<and> crop_varieties ''All'' (merged_gdf example_centroids example_rows) = [''Maize'', ''Beans'']
   \<and> stages (select_variety ''Maize'' (select_crop ''All'' (merged_gdf example_centroids example_rows)))
       = [''Flowering'', ''N/A'']
   \<and> select_crop ''All'' (merged_gdf example_centroids example_rows)
       = merged_gdf example_centroids example_rows
   \<and> ''Cereal'' \<noteq> ''All''
   \<and> map (\<lambda>r. id_col (left_cols r)) (select_crop ''Cereal'' (merged_gdf example_centroids example_rows))
       = [''1'']
   \<and> map (\<lambda>r. id_col (left_cols r)) (select_variety ''Maize'' (merged_gdf example_centroids example_rows))
       = [''1'', ''99'']
   \<and> map (\<lambda>r. id_col (left_cols r)) (select_stage ''N/A'' (merged_gdf example_centroids example_rows))
       = [''7'', ''99'']
   \<and> map (\<lambda>r. id_col (left_cols r))
       (filtered_gdf ''All'' ''Maize'' ''N/A'' (merged_gdf example_centroids example_rows))
       = [''99'']"
proof -
  have c: "crop_classes (merged_gdf example_centroids example_rows) = [''Cereal'', ''Legume'']"
    by (simp add: example_merged_gdf crop_classes_def unique_def) (simp add: example_defs)
  have v: "crop_varieties ''All'' (merged_gdf example_centroids example_rows) = [''Maize'', ''Beans'']"
    by (simp add: example_merged_gdf crop_varieties_def unique_def) (simp add: example_defs)
  have s: "stages (select_variety ''Maize'' (select_crop ''All''
              (merged_gdf example_centroids example_rows))) = [''Flowering'', ''N/A'']"
    by (simp add: example_merged_gdf stages_def select_variety_def select_crop_def unique_def)
      (simp add: example_defs)
  from c v s
    filter_cascade_levels [of "''All''" "merged_gdf example_centroids example_rows"
      "''All''" "''Maize''" "''N/A''"]
    filter_cascade_levels [of "''Cereal''" "merged_gdf example_centroids example_rows"]
    filter_cascade_levels [of "''Maize''" "merged_gdf example_centroids example_rows"]
    filter_cascade_levels [of "''N/A''" "merged_gdf example_centroids example_rows"]
  show ?thesis
    by (simp add: example_merged_gdf) (simp add: example_defs)
qed

section \<open>The map view\<close>

text \<open>
  C8. The centre of the map is (0, 0) for an empty filtered table, and otherwise the pair of
  the mean of the rows' centroid latitudes and the mean of their centroid longitudes, which
  is sum over number of rows when every row has a centroid.
\<close>

theorem farm_center_mean:
  "farm_center [] = (Some 0, Some 0)
 \<and> (g \<noteq> [] \<longrightarrow> farm_center g = (mean_pd (map centroid_y g), mean_pd (map centroid_x g)))
 \<and> (g \<noteq> [] \<and> map (\<lambda>r. centroid (left_cols r)) g = map Some pts \<longrightarrow>
       farm_center g = (Some (sum_list (map snd pts) / of_nat (length g)),
                        Some (sum_list (map fst pts) / of_nat (length g))))"
proof (intro conjI impI)
  show "farm_center [] = (Some 0, Some 0)"
    by (simp add: farm_center_def)
  show "farm_center g = (mean_pd (map centroid_y g), mean_pd (map centroid_x g))" if "g \<noteq> []"
    using that by (simp add: farm_center_def)
  show "farm_center g = (Some (sum_list (map snd pts) / of_nat (length g)),
                         Some (sum_list (map fst pts) / of_nat (length g)))"
    if h: "g \<noteq> [] \<and> map (\<lambda>r. centroid (left_cols r)) g = map Some pts"
  proof -
    from h centroid_cols [of g pts]
    have cols: "map centroid_y g = map (\<lambda>p. Some (snd p)) pts"
      "map centroid_x g = map (\<lambda>p. Some (fst p)) pts" "length pts = length g"
      by simp_all
    from h cols(3) have "pts \<noteq> []" by auto
    then show ?thesis
      using h by (simp add: farm_center_def cols mean_pd_all)
  qed
qed

theorem farm_center_mean_witness:
  "merged_gdf example_centroids example_rows \<noteq> []
   \<and> map (\<lambda>r. centroid (left_cols r)) (merged_gdf example_centroids example_rows)
       = map Some [(36, -1), (38, 1), (37, 3)]
   \<and> farm_center (merged_gdf example_centroids example_rows) = (Some 1, Some 37)
   \<and> farm_center (filtered_gdf ''Fruit'' ''All'' ''All'' (merged_gdf example_centroids example_rows))
       = (Some 0, Some 0)"
proof -
  have n: "merged_gdf example_centroids example_rows \<noteq> []"
    by (simp add: example_merged_gdf)
  have c: "map (\<lambda>r. centroid (left_cols r)) (merged_gdf example_centroids example_rows)
           = map Some [(36, -1), (38, 1), (37, 3)]"
    by (simp add: example_merged_gdf) (simp add: example_defs)
  have e: "filtered_gdf ''Fruit'' ''All'' ''All'' (merged_gdf example_centroids example_rows) = []"
    by (simp add: example_merged_gdf filtered_gdf_def select_crop_def select_variety_def
        select_stage_def) (simp add: example_defs)
  have l: "length (merged_gdf example_centroids example_rows) = 3"
    by (simp add: example_merged_gdf)
  note t = farm_center_mean [of "merged_gdf example_centroids example_rows"
      "[(36, -1), (38, 1), (37, 3)]"]
  from t n c have "farm_center (merged_gdf example_centroids example_rows)
      = (Some (sum_list (map snd [(36, -1), (38, 1), (37 :: rat, 3 :: rat)])
               / of_nat (length (merged_gdf example_centroids example_rows))),
         Some (sum_list (map fst [(36, -1), (38, 1), (37 :: rat, 3 :: rat)])
               / of_nat (length (merged_gdf example_centroids example_rows))))"
    by blast
  then have f: "farm_center (merged_gdf example_centroids example_rows) = (Some 1, Some 37)"
    by (simp add: l)
  from t have "farm_center [] = (Some 0, Some 0)"
    by (rule conjunct1)
  then have z: "farm_center (filtered_gdf ''Fruit'' ''All'' ''All''
                  (merged_gdf example_centroids example_rows)) = (Some 0, Some 0)"
    by (simp add: e)
  from n c f z show ?thesis by (intro conjI)
qed

section \<open>The progress view\<close>

text \<open>
  C6, as amended. The health of a date in \<open>progress_agg\<close> is \<open>N/A\<close> when no row of the
  date has a health label. Otherwise it is a label of the date's rows that no label
  outnumbers, and among the labels that occur as often it is the least in string order.
\<close>

theorem progress_agg_health_mode:
  assumes "(d, h, c) \<in> set (progress_agg df)"
  defines "labels \<equiv> notna (map crop_health (date_rows df d))"
  shows "(labels = [] \<longrightarrow> c = ''N/A'')
    \<and> (labels \<noteq> [] \<longrightarrow>
          c \<in> set labels
        \<and> (\<forall>v \<in> set labels. count_list labels v \<le> count_list labels c)
        \<and> (\<forall>v \<in> set labels. count_list labels v = count_list labels c \<longrightarrow> c \<le> v))"
proof -
  from assms(1) have c: "c = avg_crop_health (map crop_health (date_rows df d))"
    by (auto simp: progress_agg_def)
  show ?thesis
    unfolding c labels_def
    using avg_crop_health_Nil avg_crop_health_mode by blast
qed

theorem progress_agg_health_mode_witness:
  "crop_id_of_plot (merged_gdf example_centroids example_rows) ''P1'' = Some ''1''
   \<and> ((2024, 1, 5, 0), Some 15, ''Good'')
       \<in> set (progress_agg (progress_df (monitoring_df example_rows) ''1''))
   \<and> notna (map crop_health (date_rows (progress_df (monitoring_df example_rows) ''1'') (2024, 1, 5, 0)))
       = [''Poor'', ''Good'']
   \<and> ''Good'' \<le> ''Poor''"
proof -
  have p: "crop_id_of_plot (merged_gdf example_centroids example_rows) ''P1'' = Some ''1''"
    by (simp add: example_merged_gdf crop_id_of_plot_def) (simp add: example_defs)
  have h: "((2024, 1, 5, 0), Some 15, ''Good'')
           \<in> set (progress_agg (progress_df (monitoring_df example_rows) ''1''))"
    by (simp add: example_progress_df example_progress_agg)
  have l: "notna (map crop_health (date_rows (progress_df (monitoring_df example_rows) ''1'') (2024, 1, 5, 0)))
           = [''Poor'', ''Good'']"
    by (simp add: example_progress_df date_rows_def) (simp add: example_defs)
  from progress_agg_health_mode [OF h] p h l show ?thesis by simp
qed

text \<open>
  C6 as stated fails: on 2024-01-05 crop "1" has the labels \<open>Poor\<close> and \<open>Good\<close>, once each
  and in this row order; the reported health is \<open>Good\<close>, the first encountered is \<open>Poor\<close>.
\<close>

theorem first_encountered_counterexample:
  "progress_agg (progress_df (monitoring_df example_rows) ''1'')
     = [((2024, 1, 5, 0), Some 15, ''Good'')]
   \<and> map crop_health (date_rows (progress_df (monitoring_df example_rows) ''1'') (2024, 1, 5, 0))
     = [Some ''Poor'', Some ''Good'']
   \<and> first_encountered_mode [Some ''Poor'', Some ''Good''] = Some ''Poor''
   \<and> Some (snd (snd (hd (progress_agg (progress_df (monitoring_df example_rows) ''1''))))) \<noteq>
       first_encountered_mode
         (map crop_health
           (date_rows (progress_df (monitoring_df example_rows) ''1'') (2024, 1, 5, 0)))"
proof -
  have p: "progress_agg (progress_df (monitoring_df example_rows) ''1'')
           = [((2024, 1, 5, 0), Some 15, ''Good'')]"
    by (simp add: example_progress_df example_progress_agg)
  have l: "map crop_health
             (date_rows (progress_df (monitoring_df example_rows) ''1'') (2024, 1, 5, 0))
           = [Some ''Poor'', Some ''Good'']"
    by (simp add: example_progress_df date_rows_def) (simp add: example_defs)
  have f: "first_encountered_mode [Some ''Poor'', Some ''Good''] = Some ''Poor''"
    by (simp add: first_encountered_mode_def)
  have n: "Some (snd (snd (hd (progress_agg (progress_df (monitoring_df example_rows) ''1''))))) \<noteq>
       first_encountered_mode
         (map crop_health
           (date_rows (progress_df (monitoring_df example_rows) ''1'') (2024, 1, 5, 0)))"
    unfolding p l f by simp
  from p l f n show ?thesis by (intro conjI)
qed

end
